theory Spec2Isabelle
  imports Complex_Main "HOL-Library.Multiset"
begin

section \<open>Ntree: tree-based block signing with independent signatures\<close>

text \<open>
  The development follows the Ntree protocol file (\<open>type Ntree struct\<close> and its
  methods). One protocol instance is a record; every method is a function from the
  instance to the updated instance together with the messages it hands to the overlay.

  Go channels. \<open>verifyBlockChan\<close> and \<open>verifySignatureRequestChan\<close> are unbuffered:
  a goroutine that sends waits on the channel until the instance's loop receives. A
  channel is modelled by the queue of goroutines waiting on it, each given by the
  values it still has to send, in program order. A \<open>go f(...)\<close> statement puts the
  values \<open>f\<close> sends at the back of the queue. A receive \<open>ok := <-ch\<close> takes the next
  value of the goroutine at the front, which rejoins at the back with the rest of its
  values; on the empty queue the receive blocks for ever (\<open>Blocked\<close>).
\<close>

subsection \<open>Data\<close>

type_synonym TreeNodeID = nat
type_synonym bytes = string
type_synonym SchnorrSig = string
type_synonym Scalar = nat
type_synonym Point = nat

datatype Exception = Exception (ID: TreeNodeID)

record NaiveBlockSignature =
  Sigs :: "SchnorrSig list"
  Exceptions :: "Exception list"

datatype 'blk Message =
    BlockAnnounce "'blk option"
  | BlockSignatureMsg NaiveBlockSignature
  | RoundSignatureRequest NaiveBlockSignature
  | RoundSignatureResponse NaiveBlockSignature

datatype 'blk Out =
    SendTo TreeNodeID "'blk Message"
  | SendError
  | OnDone "'blk option" NaiveBlockSignature

datatype stuck = Blocked | NilPointer

type_synonym chan = "bool list list"

definition goSends :: "bool list \<Rightarrow> chan \<Rightarrow> chan" where
  "goSends vs ch = (if vs = [] then ch else ch @ [vs])"

fun recv :: "chan \<Rightarrow> (bool \<times> chan) option" where
  "recv [] = None"
| "recv ([] # ch) = recv ch"
| "recv ((v # vs) # ch) = Some (v, if vs = [] then ch else ch @ [vs])"

text \<open>
  The collaborators the file imports but does not define: \<open>json.Marshal\<close> on the block
  and on its header (\<open>None\<close> when it returns an error), \<open>crypto.SignSchnorr\<close> (the
  signature and whether an error came with it) and \<open>crypto.VerifySchnorr\<close> (\<open>True\<close>
  when the returned error is nil). The suite is fixed for a run and left out, and so
  are the random draws of the signer: within one run signing is a function of the key
  and the payload.
\<close>

record 'blk Env =
  marshalBlock :: "'blk option \<Rightarrow> bytes option"
  marshalHeader :: "'blk \<Rightarrow> bytes option"
  SignSchnorr :: "Scalar \<Rightarrow> bytes \<Rightarrow> SchnorrSig \<times> bool"
  VerifySchnorr :: "Point \<Rightarrow> bytes \<Rightarrow> SchnorrSig \<Rightarrow> bool"
  isValid :: "TreeNodeID \<Rightarrow> 'blk option \<Rightarrow> bool"

record 'blk Ntree =
  nodeID :: TreeNodeID
  Parent :: "TreeNodeID option"
  Children :: "TreeNodeID list"
  TreeList :: "TreeNodeID list"
  Private :: Scalar
  Public :: Point
  block :: "'blk option"
  verifyBlockChan :: chan
  verifySignatureRequestChan :: chan
  tempBlockSig :: NaiveBlockSignature
  tempBlockSigReceived :: nat
  tempSignatureResponse :: NaiveBlockSignature
  tempSignatureResponseReceived :: nat
  onDoneCallback :: bool

definition emptySig :: NaiveBlockSignature where
  "emptySig = \<lparr>Sigs = [], Exceptions = []\<rparr>"

definition IsRoot :: "'blk Ntree \<Rightarrow> bool" where
  "IsRoot nt = (Parent nt = None)"

definition IsLeaf :: "'blk Ntree \<Rightarrow> bool" where
  "IsLeaf nt = (Children nt = [])"

definition NewNtreeProtocol ::
  "TreeNodeID \<Rightarrow> TreeNodeID option \<Rightarrow> TreeNodeID list \<Rightarrow> TreeNodeID list \<Rightarrow> Scalar \<Rightarrow> Point
     \<Rightarrow> 'blk Ntree" where
  "NewNtreeProtocol i p cs l sk pk =
     \<lparr>nodeID = i, Parent = p, Children = cs, TreeList = l, Private = sk, Public = pk,
      block = None, verifyBlockChan = [], verifySignatureRequestChan = [],
      tempBlockSig = emptySig, tempBlockSigReceived = 0,
      tempSignatureResponse = emptySig, tempSignatureResponseReceived = 0,
      onDoneCallback = False\<rparr>"

definition RegisterOnDone :: "'blk Ntree \<Rightarrow> 'blk Ntree" where
  "RegisterOnDone nt = nt\<lparr>onDoneCallback := True\<rparr>"

subsection \<open>Sending\<close>

text \<open>
  \<open>SendTo\<close> to a nil parent (the root has none) returns an error, which the callers
  log; no message leaves the node.
\<close>

definition sendToParent :: "'blk Ntree \<Rightarrow> 'blk Message \<Rightarrow> 'blk Out list" where
  "sendToParent nt m = (case Parent nt of None \<Rightarrow> [SendError] | Some p \<Rightarrow> [SendTo p m])"

definition sendToChildren :: "'blk Ntree \<Rightarrow> 'blk Message \<Rightarrow> 'blk Out list" where
  "sendToChildren nt m = map (\<lambda>tn. SendTo tn m) (Children nt)"

subsection \<open>Bundles\<close>

text \<open>
  The two \<open>append\<close> lines that open \<open>handleBlockSignature\<close> and
  \<open>handleRoundSignatureResponse\<close>.
\<close>

definition merge :: "NaiveBlockSignature \<Rightarrow> NaiveBlockSignature \<Rightarrow> NaiveBlockSignature" where
  "merge self other =
     \<lparr>Sigs = Sigs self @ Sigs other, Exceptions = Exceptions self @ Exceptions other\<rparr>"

definition bundleSize :: "NaiveBlockSignature \<Rightarrow> nat" where
  "bundleSize b = length (Sigs b) + length (Exceptions b)"

definition addException :: "TreeNodeID \<Rightarrow> NaiveBlockSignature \<Rightarrow> NaiveBlockSignature" where
  "addException i b = b\<lparr>Exceptions := Exceptions b @ [Exception i]\<rparr>"

definition addSig :: "SchnorrSig \<Rightarrow> NaiveBlockSignature \<Rightarrow> NaiveBlockSignature" where
  "addSig s b = b\<lparr>Sigs := Sigs b @ [s]\<rparr>"

subsection \<open>Bundle verification\<close>

text \<open>
  \<open>threshold := int(math.Ceil(float64(len(nt.Tree().List())) / 3.0))\<close>. The quotient
  of a length (below \<open>2^53\<close>) by three is never within a rounding error of an integer
  it does not equal, so the floating-point ceiling is the exact one.
\<close>

definition threshold :: "nat \<Rightarrow> nat" where
  "threshold n = nat \<lceil>real n / 3\<rceil>"

text \<open>The loop over \<open>msg.Sigs\<close>: each signature is checked with \<open>nt.Public()\<close>.\<close>

fun countGood :: "(SchnorrSig \<Rightarrow> bool) \<Rightarrow> nat \<Rightarrow> SchnorrSig list \<Rightarrow> nat" where
  "countGood ok goodSig [] = goodSig"
| "countGood ok goodSig (sig # sigs) =
     countGood ok (if ok sig then goodSig + 1 else goodSig) sigs"

definition marshalledBlock :: "'blk Env \<Rightarrow> 'blk Ntree \<Rightarrow> bytes" where
  "marshalledBlock env nt = (case marshalBlock env (block nt) of None \<Rightarrow> [] | Some m \<Rightarrow> m)"

definition goodSig :: "'blk Env \<Rightarrow> 'blk Ntree \<Rightarrow> NaiveBlockSignature \<Rightarrow> nat" where
  "goodSig env nt msg =
     countGood (VerifySchnorr env (Public nt) (marshalledBlock env nt)) 0 (Sigs msg)"

text \<open>
  \<open>verifySignatureRequest\<close> yields the values it sends on
  \<open>verifySignatureRequestChan\<close>, in order. Neither \<open>if\<close> returns after its send.
\<close>

definition verifySignatureRequest ::
  "'blk Env \<Rightarrow> 'blk Ntree \<Rightarrow> NaiveBlockSignature \<Rightarrow> bool list" where
  "verifySignatureRequest env nt msg =
     (let thr = threshold (length (TreeList nt)) in
        (if length (Exceptions msg) > thr then [False] else [])
      @ (if goodSig env nt msg \<le> 2 * thr then [False] else [])
      @ [True])"

subsection \<open>Phase 1: block signature\<close>

text \<open>
  \<open>computeBlockSignature\<close> waits for the block verification, marshals the block and
  returns without a contribution when that fails; otherwise it appends an exception or
  a signature. The error of \<open>SignSchnorr\<close> is discarded here.
\<close>

definition computeBlockSignature :: "'blk Env \<Rightarrow> 'blk Ntree \<Rightarrow> stuck + 'blk Ntree" where
  "computeBlockSignature env nt =
     (case recv (verifyBlockChan nt) of
        None \<Rightarrow> Inl Blocked
      | Some (ok, rest) \<Rightarrow>
          (case marshalBlock env (block nt) of
             None \<Rightarrow> Inr (nt\<lparr>verifyBlockChan := rest\<rparr>)
           | Some marshalled \<Rightarrow>
               if \<not> ok
               then Inr (nt\<lparr>verifyBlockChan := rest,
                            tempBlockSig := addException (nodeID nt) (tempBlockSig nt)\<rparr>)
               else Inr (nt\<lparr>verifyBlockChan := rest,
                            tempBlockSig :=
                              addSig (fst (SignSchnorr env (Private nt) marshalled))
                                (tempBlockSig nt)\<rparr>)))"

definition startBlockSignature ::
  "'blk Env \<Rightarrow> 'blk Ntree \<Rightarrow> stuck + 'blk Ntree \<times> 'blk Out list" where
  "startBlockSignature env nt =
     (case computeBlockSignature env nt of
        Inl e \<Rightarrow> Inl e
      | Inr nt' \<Rightarrow> Inr (nt', sendToParent nt' (BlockSignatureMsg (tempBlockSig nt'))))"

text \<open>
  \<open>startSignatureRequest\<close>: the request wraps the \<open>msg\<close> it is given, the
  verification goroutine is started on it, and it goes to every child.
\<close>

definition goVerifySignatureRequest ::
  "'blk Env \<Rightarrow> 'blk Ntree \<Rightarrow> NaiveBlockSignature \<Rightarrow> 'blk Ntree" where
  "goVerifySignatureRequest env nt msg =
     nt\<lparr>verifySignatureRequestChan :=
          goSends (verifySignatureRequest env nt msg) (verifySignatureRequestChan nt)\<rparr>"

definition startSignatureRequest ::
  "'blk Env \<Rightarrow> 'blk Ntree \<Rightarrow> NaiveBlockSignature \<Rightarrow> 'blk Ntree \<times> 'blk Out list" where
  "startSignatureRequest env nt msg =
     (goVerifySignatureRequest env nt msg, sendToChildren nt (RoundSignatureRequest msg))"

definition handleBlockSignature ::
  "'blk Env \<Rightarrow> 'blk Ntree \<Rightarrow> NaiveBlockSignature \<Rightarrow> stuck + 'blk Ntree \<times> 'blk Out list" where
  "handleBlockSignature env nt msg =
     (let nt1 = nt\<lparr>tempBlockSig := merge (tempBlockSig nt) msg,
                    tempBlockSigReceived := tempBlockSigReceived nt + 1\<rparr>
      in if tempBlockSigReceived nt1 < length (Children nt1) then Inr (nt1, [])
         else (case computeBlockSignature env nt1 of
                 Inl e \<Rightarrow> Inl e
               | Inr nt2 \<Rightarrow>
                   if IsRoot nt2 then Inr (startSignatureRequest env nt2 msg)
                   else Inr (nt2, sendToParent nt2 (BlockSignatureMsg (tempBlockSig nt2)))))"

subsection \<open>Phase 2: signature response\<close>

text \<open>
  \<open>computeSignatureResponse\<close> waits for the bundle verification. On \<open>false\<close> it
  appends an exception; on \<open>true\<close> it marshals \<open>nt.block.Header\<close> and signs it, and
  returns without a contribution when either step fails.
\<close>

definition computeSignatureResponse :: "'blk Env \<Rightarrow> 'blk Ntree \<Rightarrow> stuck + 'blk Ntree" where
  "computeSignatureResponse env nt =
     (case recv (verifySignatureRequestChan nt) of
        None \<Rightarrow> Inl Blocked
      | Some (ok, rest) \<Rightarrow>
          if \<not> ok
          then Inr (nt\<lparr>verifySignatureRequestChan := rest,
                       tempSignatureResponse :=
                         addException (nodeID nt) (tempSignatureResponse nt)\<rparr>)
          else (case block nt of
                  None \<Rightarrow> Inl NilPointer
                | Some b \<Rightarrow>
                    (case marshalHeader env b of
                       None \<Rightarrow> Inr (nt\<lparr>verifySignatureRequestChan := rest\<rparr>)
                     | Some marshalled \<Rightarrow>
                         (case SignSchnorr env (Private nt) marshalled of
                            (sig, err) \<Rightarrow>
                              if err then Inr (nt\<lparr>verifySignatureRequestChan := rest\<rparr>)
                              else Inr (nt\<lparr>verifySignatureRequestChan := rest,
                                           tempSignatureResponse :=
                                             addSig sig (tempSignatureResponse nt)\<rparr>)))))"

definition startSignatureResponse ::
  "'blk Env \<Rightarrow> 'blk Ntree \<Rightarrow> stuck + 'blk Ntree \<times> 'blk Out list" where
  "startSignatureResponse env nt =
     (case computeSignatureResponse env nt of
        Inl e \<Rightarrow> Inl e
      | Inr nt' \<Rightarrow>
          Inr (nt', sendToParent nt' (RoundSignatureResponse (tempSignatureResponse nt'))))"

text \<open>
  \<open>handleRoundSignatureResponse\<close>: a node that is not the root ends with
  \<open>nt.SendTo(nt.Parent(), msg)\<close>, where \<open>msg\<close> is the bundle just received.
\<close>

definition handleRoundSignatureResponse ::
  "'blk Env \<Rightarrow> 'blk Ntree \<Rightarrow> NaiveBlockSignature \<Rightarrow> stuck + 'blk Ntree \<times> 'blk Out list" where
  "handleRoundSignatureResponse env nt msg =
     (let nt1 = nt\<lparr>tempSignatureResponse := merge (tempSignatureResponse nt) msg,
                    tempSignatureResponseReceived := tempSignatureResponseReceived nt + 1\<rparr>
      in if tempSignatureResponseReceived nt1 < length (Children nt1) then Inr (nt1, [])
         else (case computeSignatureResponse env nt1 of
                 Inl e \<Rightarrow> Inl e
               | Inr nt2 \<Rightarrow>
                   if IsRoot nt2
                   then Inr (nt2, if onDoneCallback nt2
                                  then [OnDone (block nt2) (tempSignatureResponse nt2)]
                                  else [])
                   else Inr (nt2, sendToParent nt2 (RoundSignatureResponse msg))))"

subsection \<open>The event loop\<close>

text \<open>
  Modelled from the spec: \<open>byzcoin.VerifyBlock\<close> is not part of the files at hand. The
  block verification task "returns a boolean" from the block validator and "delivers
  exactly one boolean to the owning node".
\<close>

definition VerifyBlock :: "'blk Env \<Rightarrow> 'blk Ntree \<Rightarrow> bool list" where
  "VerifyBlock env nt = [isValid env (nodeID nt) (block nt)]"

definition goVerifyBlock :: "'blk Env \<Rightarrow> 'blk Ntree \<Rightarrow> 'blk Ntree" where
  "goVerifyBlock env nt =
     nt\<lparr>verifyBlockChan := goSends (VerifyBlock env nt) (verifyBlockChan nt)\<rparr>"

definition NewNTreeRootProtocol ::
  "TreeNodeID \<Rightarrow> TreeNodeID list \<Rightarrow> TreeNodeID list \<Rightarrow> Scalar \<Rightarrow> Point \<Rightarrow> 'blk \<Rightarrow> 'blk Ntree" where
  "NewNTreeRootProtocol i cs l sk pk b = (NewNtreeProtocol i None cs l sk pk)\<lparr>block := Some b\<rparr>"

definition Start :: "'blk Env \<Rightarrow> 'blk Ntree \<Rightarrow> 'blk Ntree \<times> 'blk Out list" where
  "Start env nt =
     (goVerifyBlock env nt, sendToChildren nt (BlockAnnounce (block nt)))"

text \<open>One iteration of the \<open>select\<close> in \<open>listen\<close>, for the message that arrived.\<close>

fun listen ::
  "'blk Env \<Rightarrow> 'blk Ntree \<Rightarrow> 'blk Message \<Rightarrow> stuck + 'blk Ntree \<times> 'blk Out list" where
  "listen env nt (BlockAnnounce b) =
     (let nt1 = nt\<lparr>block := b\<rparr>;
          nt2 = goVerifyBlock env nt1
      in if IsLeaf nt2 then startBlockSignature env nt2
         else Inr (nt2, sendToChildren nt2 (BlockAnnounce b)))"
| "listen env nt (BlockSignatureMsg msg) = handleBlockSignature env nt msg"
| "listen env nt (RoundSignatureRequest msg) =
     (let nt1 = goVerifySignatureRequest env nt msg
      in if IsLeaf nt1 then startSignatureResponse env nt1
         else Inr (nt1, sendToChildren nt1 (RoundSignatureRequest msg)))"
| "listen env nt (RoundSignatureResponse msg) = handleRoundSignatureResponse env nt msg"

subsection \<open>A run over a tree\<close>

text \<open>
  The overlay is a queue of outputs; every message is delivered, first sent first
  delivered, to the instance with the destination's identifier. \<open>run\<close> performs at
  most the given number of deliveries and returns the instances, what is still in
  flight, and the results handed to the completion callback.
\<close>

fun deliver ::
  "'blk Env \<Rightarrow> 'blk Ntree list \<Rightarrow> TreeNodeID \<Rightarrow> 'blk Message
     \<Rightarrow> stuck + 'blk Ntree list \<times> 'blk Out list" where
  "deliver env [] i m = Inr ([], [SendError])"
| "deliver env (nt # nts) i m =
     (if nodeID nt = i
      then (case listen env nt m of
              Inl e \<Rightarrow> Inl e
            | Inr (nt', outs) \<Rightarrow> Inr (nt' # nts, outs))
      else (case deliver env nts i m of
              Inl e \<Rightarrow> Inl e
            | Inr (nts', outs) \<Rightarrow> Inr (nt # nts', outs)))"

fun run ::
  "'blk Env \<Rightarrow> nat \<Rightarrow> 'blk Ntree list \<Rightarrow> 'blk Out list \<Rightarrow> NaiveBlockSignature list
     \<Rightarrow> stuck + 'blk Ntree list \<times> 'blk Out list \<times> NaiveBlockSignature list" where
  "run env 0 nts q fin = Inr (nts, q, fin)"
| "run env (Suc n) nts [] fin = Inr (nts, [], fin)"
| "run env (Suc n) nts (SendTo i m # q) fin =
     (case deliver env nts i m of
        Inl e \<Rightarrow> Inl e
      | Inr (nts', outs) \<Rightarrow> run env n nts' (q @ outs) fin)"
| "run env (Suc n) nts (SendError # q) fin = run env n nts q fin"
| "run env (Suc n) nts (OnDone b sig # q) fin = run env n nts q (fin @ [sig])"

definition runFromRoot ::
  "'blk Env \<Rightarrow> nat \<Rightarrow> 'blk Ntree \<Rightarrow> 'blk Ntree list
     \<Rightarrow> stuck + 'blk Ntree list \<times> 'blk Out list \<times> NaiveBlockSignature list" where
  "runFromRoot env n rt others =
     (case Start env rt of (rt', outs) \<Rightarrow> run env n (rt' # others) outs [])"

text \<open>
  What a finished run shows of the root (the first instance): the sizes of its phase-1
  and phase-2 bundles and the sizes of the bundles handed to the callback.
\<close>

definition rootSizes ::
  "stuck + 'blk Ntree list \<times> 'blk Out list \<times> NaiveBlockSignature list
     \<Rightarrow> (nat \<times> nat \<times> nat list) option" where
  "rootSizes r =
     (case r of
        Inr (rt # nts, [], fin) \<Rightarrow>
          Some (bundleSize (tempBlockSig rt), bundleSize (tempSignatureResponse rt),
                map bundleSize fin)
      | _ \<Rightarrow> None)"

subsection \<open>Concrete collaborators and trees\<close>

text \<open>
  A stand-in signature scheme for evaluating the protocol on examples: the signature
  of a message under key \<open>k\<close> is the message followed by \<open>k\<close> marks, the public key of
  a participant equals its private key, and verification recomputes the signature.
\<close>

definition toySign :: "Scalar \<Rightarrow> bytes \<Rightarrow> SchnorrSig" where
  "toySign k m = m @ replicate k (CHR ''#'')"

definition envHonest :: "nat Env" where
  "envHonest =
     \<lparr>marshalBlock = (\<lambda>b. Some ''block''),
      marshalHeader = (\<lambda>b. Some ''header''),
      SignSchnorr = (\<lambda>k m. (toySign k m, False)),
      VerifySchnorr = (\<lambda>k m s. s = toySign k m),
      isValid = (\<lambda>i b. True)\<rparr>"

definition envNoMarshal :: "nat Env" where
  "envNoMarshal = envHonest\<lparr>marshalBlock := (\<lambda>b. None)\<rparr>"

definition ids7 :: "TreeNodeID list" where
  "ids7 = [0, 1, 2, 3, 4, 5, 6]"

definition member7 :: "TreeNodeID \<Rightarrow> TreeNodeID \<Rightarrow> TreeNodeID list \<Rightarrow> nat Ntree" where
  "member7 i p cs = NewNtreeProtocol i (Some p) cs ids7 (Suc i) (Suc i)"

definition root7 :: "nat Ntree" where
  "root7 = RegisterOnDone (NewNTreeRootProtocol 0 [1, 2] ids7 1 1 42)"

definition others7 :: "nat Ntree list" where
  "others7 = [member7 1 0 [3, 4], member7 2 0 [5, 6],
              member7 3 1 [], member7 4 1 [], member7 5 2 [], member7 6 2 []]"

text \<open>States and bundles met in runs over the seven-node tree and over smaller trees.\<close>

definition bundle1 :: NaiveBlockSignature where
  "bundle1 = \<lparr>Sigs = [toySign 4 ''block'', toySign 5 ''block'', toySign 2 ''block''],
               Exceptions = []\<rparr>"

definition bundle2 :: NaiveBlockSignature where
  "bundle2 = \<lparr>Sigs = [toySign 6 ''block'', toySign 7 ''block'', toySign 3 ''block''],
               Exceptions = []\<rparr>"

definition rootWaiting :: "nat Ntree" where
  "rootWaiting = root7\<lparr>verifyBlockChan := [[True]], tempBlockSig := bundle1,
                        tempBlockSigReceived := 1\<rparr>"

definition refusal :: "TreeNodeID \<Rightarrow> NaiveBlockSignature" where
  "refusal i = \<lparr>Sigs = [], Exceptions = [Exception i]\<rparr>"

definition innerWaiting :: "nat Ntree" where
  "innerWaiting = (member7 1 0 [3, 4])\<lparr>block := Some 42,
                     verifySignatureRequestChan := [[False, True]],
                     tempSignatureResponse := refusal 3,
                     tempSignatureResponseReceived := 1\<rparr>"

definition twoRefusals :: NaiveBlockSignature where
  "twoRefusals = \<lparr>Sigs = [], Exceptions = [Exception 2, Exception 1]\<rparr>"

definition chainLeaf :: "nat Ntree" where
  "chainLeaf = (NewNtreeProtocol 2 (Some 1) [] [0, 1, 2] 3 3)\<lparr>block := Some 42\<rparr>"

definition chainLeafRequested :: "nat Ntree" where
  "chainLeafRequested = goVerifySignatureRequest envHonest chainLeaf twoRefusals"

definition chainLeafAnnounced :: "bool \<Rightarrow> nat Ntree" where
  "chainLeafAnnounced ok = chainLeaf\<lparr>verifyBlockChan := [[ok]]\<rparr>"

text \<open>
  Leaf 5 of the seven-node tree with the block announced. A request made of three
  copies of the chain leaf's own signature, which that leaf accepts. The chain leaf
  before any announcement has reached it.
\<close>

definition leaf5 :: "nat Ntree" where
  "leaf5 = (member7 5 2 [])\<lparr>block := Some 42\<rparr>"

definition ownSigs3 :: NaiveBlockSignature where
  "ownSigs3 = \<lparr>Sigs = [toySign 3 ''block'', toySign 3 ''block'', toySign 3 ''block''],
                Exceptions = []\<rparr>"

definition chainLeafNoBlock :: "nat Ntree" where
  "chainLeafNoBlock = NewNtreeProtocol 2 (Some 1) [] [0, 1, 2] 3 3"

definition envNoHeader :: "nat Env" where
  "envNoHeader = envHonest\<lparr>marshalHeader := (\<lambda>b. None)\<rparr>"

definition envSignError :: "nat Env" where
  "envSignError = envHonest\<lparr>SignSchnorr := (\<lambda>k m. (toySign k m, True))\<rparr>"

text \<open>Invoking a contribution step and then invoking it again on the state it left.\<close>

definition invokeTwice ::
  "('blk Env \<Rightarrow> 'blk Ntree \<Rightarrow> stuck + 'blk Ntree) \<Rightarrow> 'blk Env \<Rightarrow> 'blk Ntree \<Rightarrow> stuck + 'blk Ntree" where
  "invokeTwice step env nt = (case step env nt of Inl e \<Rightarrow> Inl e | Inr nt' \<Rightarrow> step env nt')"

subsection \<open>Computation rules\<close>

lemma ceiling_third: "\<lceil>real n / 3\<rceil> = - ((- int n) div 3)"
  using ceiling_divide_eq_div [of "int n" 3, where ?'a = real] by simp

lemma threshold_code [code]: "threshold n = (n + 2) div 3"
proof -
  have "\<lceil>real n / 3\<rceil> = int ((n + 2) div 3)"
    unfolding ceiling_third by (simp add: zdiv_int)
  then show ?thesis by (simp add: threshold_def)
qed

lemma countGood_filter: "countGood ok g sigs = g + length (filter ok sigs)"
  by (induction sigs arbitrary: g) simp_all

lemma Sigs_merge: "Sigs (merge a b) = Sigs a @ Sigs b"
  by (simp add: merge_def)

lemma Exceptions_merge: "Exceptions (merge a b) = Exceptions a @ Exceptions b"
  by (simp add: merge_def)

lemma Sigs_foldl_merge:
  "mset (Sigs (foldl merge a bs)) = mset (Sigs a) + (\<Sum>b\<in>#mset bs. mset (Sigs b))"
  by (induction bs arbitrary: a) (simp_all add: Sigs_merge)

lemma Exceptions_foldl_merge:
  "mset (Exceptions (foldl merge a bs)) =
     mset (Exceptions a) + (\<Sum>b\<in>#mset bs. mset (Exceptions b))"
  by (induction bs arbitrary: a) (simp_all add: Exceptions_merge)

lemma verifySignatureRequest_sends:
  "verifySignatureRequest env nt msg =
     (if length (Exceptions msg) > threshold (length (TreeList nt)) then [False] else [])
     @ (if length (filter (VerifySchnorr env (Public nt) (marshalledBlock env nt)) (Sigs msg))
           \<le> 2 * threshold (length (TreeList nt)) then [False] else [])
     @ [True]"
  by (simp add: verifySignatureRequest_def goodSig_def countGood_filter Let_def)

lemma verifySignatureRequest_last: "last (verifySignatureRequest env nt msg) = True"
  by (simp add: verifySignatureRequest_def Let_def)

lemma recv_goSends_empty: "recv (goSends (v # vs) []) = Some (v, if vs = [] then [] else [vs])"
  by (simp add: goSends_def)

lemma computeBlockSignature_blocks:
  "verifyBlockChan nt = [] \<Longrightarrow> computeBlockSignature env nt = Inl Blocked"
  by (simp add: computeBlockSignature_def)

lemma computeSignatureResponse_blocks:
  "verifySignatureRequestChan nt = [] \<Longrightarrow> computeSignatureResponse env nt = Inl Blocked"
  by (simp add: computeSignatureResponse_def)

subsection \<open>The threshold test\<close>

text \<open>
  C1. Leaf 5 of the seven-node tree verifies the request of the all-honest run, the
  three signatures of nodes 5, 6 and 2. Here N = 7 and f = 3, the bundle has no
  exception, and one signature verifies at this node, so the second check fails. The
  verification does not end with the one boolean \<open>False\<close> of the failing check: it
  sends \<open>False\<close> and then \<open>True\<close>.
\<close>

theorem verifySignatureRequest_two_results:
  "(threshold (length (TreeList leaf5)), length (Exceptions bundle2),
    goodSig envHonest leaf5 bundle2, verifySignatureRequest envHonest leaf5 bundle2) =
   (3, 0, 1, [False, True])"
  by code_simp

text \<open>
  C2. A leaf of the chain 0 - 1 - 2 receives a signature request with two exceptions
  and no signature. With f = 1 both checks fail, and \<open>verifySignatureRequest\<close> puts
  three booleans on the result channel, not one.
\<close>

theorem verifySignatureRequest_sends_three:
  "verifySignatureRequest envHonest chainLeaf twoRefusals = [False, False, True]"
  by code_simp

subsection \<open>What is forwarded\<close>

text \<open>
  C3. Node 1 of the seven-node tree holds the phase-2 bundle of its child 3 and now
  receives the bundle of its child 4. Its merged bundle then has the contributions of
  3, 4 and itself, but the message it sends to its parent 0 is the bundle of child 4
  alone.
\<close>

theorem handleRoundSignatureResponse_forwards_last_child:
  "map_sum id (\<lambda>r. (tempSignatureResponse (fst r), snd r))
     (handleRoundSignatureResponse envHonest innerWaiting (refusal 4)) =
   Inr (\<lparr>Sigs = [], Exceptions = [Exception 3, Exception 4, Exception 1]\<rparr>,
        [SendTo 0 (RoundSignatureResponse (refusal 4))])"
  by code_simp

text \<open>
  C4. The root of the seven-node tree holds the phase-1 bundle of its child 1 and now
  receives the bundle of its child 2. Its merged bundle then has seven signatures, but
  the request it sends to both children carries the three signatures of child 2's
  bundle only.
\<close>

theorem handleBlockSignature_requests_last_child:
  "map_sum id (\<lambda>r. (length (Sigs (tempBlockSig (fst r))), snd r))
     (handleBlockSignature envHonest rootWaiting bundle2) =
   Inr (7, [SendTo 1 (RoundSignatureRequest bundle2), SendTo 2 (RoundSignatureRequest bundle2)])"
  by code_simp

text \<open>
  C5. The run over the balanced seven-node tree with every block valid and every
  message delivered ends with nothing in flight. The root then holds seven
  contributions in its phase-1 bundle but three in its phase-2 bundle, and the one
  bundle handed to the completion callback has three.
\<close>

theorem run_seven_nodes_root_sizes:
  "rootSizes (runFromRoot envHonest 100 root7 others7) = Some (7, 3, [3])"
  by code_simp

subsection \<open>The contribution steps\<close>

text \<open>
  C6. The leaf of the chain 0 - 1 - 2 has started the verification of a request with
  two exceptions, so a second boolean is waiting after the first is received. Invoking
  \<open>computeSignatureResponse\<close> twice leaves two exceptions of node 2 in its bundle.
\<close>

theorem computeSignatureResponse_twice_duplicates:
  "map_sum id tempSignatureResponse
     (invokeTwice computeSignatureResponse envHonest chainLeafRequested) =
   Inr \<lparr>Sigs = [], Exceptions = [Exception 2, Exception 2]\<rparr>"
  by code_simp

text \<open>
  C7. Take a node holding block \<open>b\<close> whose full encoding \<open>mb\<close> and header encoding
  \<open>mh\<close> differ, at a state \<open>nt\<close> about to contribute to phase 1 and a later state
  \<open>nt'\<close> about to contribute to phase 2, both verifications having succeeded. Phase 1
  appends the signature of \<open>mb\<close> and phase 2 the signature of \<open>mh\<close>: the payloads
  differ, and with a signer that maps different payloads to different signatures the
  two signatures differ.
\<close>

theorem round_signatures_differ:
  "block nt = Some b \<and> block nt' = Some b \<and> Private nt' = Private nt
   \<and> marshalBlock env (Some b) = Some mb \<and> marshalHeader env b = Some mh \<and> mb \<noteq> mh
   \<and> recv (verifyBlockChan nt) = Some (True, ch1)
   \<and> recv (verifySignatureRequestChan nt') = Some (True, ch2)
   \<and> SignSchnorr env (Private nt) mb = (s1, e1)
   \<and> SignSchnorr env (Private nt) mh = (s2, False)
   \<and> inj (\<lambda>m. fst (SignSchnorr env (Private nt) m)) \<longrightarrow>
   computeBlockSignature env nt =
     Inr (nt\<lparr>verifyBlockChan := ch1, tempBlockSig := addSig s1 (tempBlockSig nt)\<rparr>)
   \<and> computeSignatureResponse env nt' =
     Inr (nt'\<lparr>verifySignatureRequestChan := ch2,
              tempSignatureResponse := addSig s2 (tempSignatureResponse nt')\<rparr>)
   \<and> s1 \<noteq> s2"
proof (intro impI, elim conjE)
  assume blk: "block nt = Some b" "block nt' = Some b" and key: "Private nt' = Private nt"
    and enc: "marshalBlock env (Some b) = Some mb" "marshalHeader env b = Some mh"
    and diff: "mb \<noteq> mh"
    and rcv: "recv (verifyBlockChan nt) = Some (True, ch1)"
      "recv (verifySignatureRequestChan nt') = Some (True, ch2)"
    and sg: "SignSchnorr env (Private nt) mb = (s1, e1)"
      "SignSchnorr env (Private nt) mh = (s2, False)"
    and inj: "inj (\<lambda>m. fst (SignSchnorr env (Private nt) m))"
  have one: "computeBlockSignature env nt =
     Inr (nt\<lparr>verifyBlockChan := ch1, tempBlockSig := addSig s1 (tempBlockSig nt)\<rparr>)"
    using blk enc rcv sg by (simp add: computeBlockSignature_def)
  have two: "computeSignatureResponse env nt' =
     Inr (nt'\<lparr>verifySignatureRequestChan := ch2,
              tempSignatureResponse := addSig s2 (tempSignatureResponse nt')\<rparr>)"
    using blk key enc rcv sg by (simp add: computeSignatureResponse_def)
  have "s1 \<noteq> s2"
  proof
    assume "s1 = s2"
    then have "fst (SignSchnorr env (Private nt) mb) = fst (SignSchnorr env (Private nt) mh)"
      using sg by simp
    then have "mb = mh" using inj by (simp add: inj_def)
    with diff show False by simp
  qed
  with one two show "computeBlockSignature env nt =
     Inr (nt\<lparr>verifyBlockChan := ch1, tempBlockSig := addSig s1 (tempBlockSig nt)\<rparr>)
   \<and> computeSignatureResponse env nt' =
     Inr (nt'\<lparr>verifySignatureRequestChan := ch2,
              tempSignatureResponse := addSig s2 (tempSignatureResponse nt')\<rparr>)
   \<and> s1 \<noteq> s2"
    by simp
qed

text \<open>
  C7 at the leaf of the chain, announced with a valid block for phase 1 and holding an
  accepted request for phase 2: it signs \<open>block\<close> in phase 1 and \<open>header\<close> in phase 2,
  and the two signatures differ.
\<close>

theorem round_signatures_differ_witness:
  "block (chainLeafAnnounced True) = Some 42
   \<and> block (goVerifySignatureRequest envHonest chainLeaf ownSigs3) = Some 42
   \<and> Private (goVerifySignatureRequest envHonest chainLeaf ownSigs3) =
       Private (chainLeafAnnounced True)
   \<and> marshalBlock envHonest (Some 42) = Some ''block''
   \<and> marshalHeader envHonest 42 = Some ''header''
   \<and> ''block'' \<noteq> ''header''
   \<and> recv (verifyBlockChan (chainLeafAnnounced True)) = Some (True, [])
   \<and> recv (verifySignatureRequestChan (goVerifySignatureRequest envHonest chainLeaf ownSigs3)) =
       Some (True, [])
   \<and> inj (\<lambda>m. fst (SignSchnorr envHonest (Private (chainLeafAnnounced True)) m))
   \<and> map_sum id (Sigs \<circ> tempBlockSig)
       (computeBlockSignature envHonest (chainLeafAnnounced True)) = Inr [''block###'']
   \<and> map_sum id (Sigs \<circ> tempSignatureResponse)
       (computeSignatureResponse envHonest (goVerifySignatureRequest envHonest chainLeaf ownSigs3)) =
       Inr [''header###'']
   \<and> ''block###'' \<noteq> ''header###''"
proof -
  let ?p = "chainLeafAnnounced True"
  let ?q = "goVerifySignatureRequest envHonest chainLeaf ownSigs3"
  have h1: "block ?p = Some 42" by code_simp
  have h2: "block ?q = Some 42" by code_simp
  have h3: "Private ?q = Private ?p" by code_simp
  have h4: "marshalBlock envHonest (Some 42) = Some ''block''" by code_simp
  have h5: "marshalHeader envHonest 42 = Some ''header''" by code_simp
  have h6: "''block'' \<noteq> ''header''" by simp
  have h7: "recv (verifyBlockChan ?p) = Some (True, [])" by code_simp
  have h8: "recv (verifySignatureRequestChan ?q) = Some (True, [])" by code_simp
  have h9: "SignSchnorr envHonest (Private ?p) ''block'' = (''block###'', False)" by code_simp
  have h10: "SignSchnorr envHonest (Private ?p) ''header'' = (''header###'', False)" by code_simp
  have h11: "inj (\<lambda>m. fst (SignSchnorr envHonest (Private ?p) m))"
    by (simp add: inj_def envHonest_def toySign_def)
  from round_signatures_differ [where nt = ?p and nt' = ?q and env = envHonest and b = 42
      and mb = "''block''" and mh = "''header''" and ?ch1.0 = "[]" and ?ch2.0 = "[]"
      and ?s1.0 = "''block###''" and ?s2.0 = "''header###''" and ?e1.0 = False]
    h1 h2 h3 h4 h5 h6 h7 h8 h9 h10 h11
  have r: "computeBlockSignature envHonest ?p =
       Inr (?p\<lparr>verifyBlockChan := [], tempBlockSig := addSig ''block###'' (tempBlockSig ?p)\<rparr>)
     \<and> computeSignatureResponse envHonest ?q =
       Inr (?q\<lparr>verifySignatureRequestChan := [],
              tempSignatureResponse := addSig ''header###'' (tempSignatureResponse ?q)\<rparr>)
     \<and> ''block###'' \<noteq> ''header###''"
    by blast
  have t1: "Sigs (tempBlockSig ?p) = []"
    by (simp add: chainLeafAnnounced_def chainLeaf_def NewNtreeProtocol_def emptySig_def)
  have t2: "Sigs (tempSignatureResponse ?q) = []"
    by (simp add: goVerifySignatureRequest_def chainLeaf_def NewNtreeProtocol_def emptySig_def)
  from r t1 have c1: "map_sum id (Sigs \<circ> tempBlockSig) (computeBlockSignature envHonest ?p) =
      Inr [''block###'']"
    by (simp add: addSig_def)
  from r t2 have c2: "map_sum id (Sigs \<circ> tempSignatureResponse)
      (computeSignatureResponse envHonest ?q) = Inr [''header###'']"
    by (simp add: addSig_def)
  from r have c3: "''block###'' \<noteq> ''header###''" by blast
  from h1 h2 h3 h4 h5 h6 h7 h8 h11 c1 c2 c3 show ?thesis by blast
qed

text \<open>
  C8, as stated, fails on each return of a contribution step that comes before its
  append. At the leaf of the chain: in phase 1, after a failed block verification, a
  block that does not marshal leaves the bundle empty; in phase 2, after an accepted
  request, a header that does not marshal leaves the bundle empty, and so does a
  signing error; and with no block set the step stops at \<open>nt.block.Header\<close>.
\<close>

theorem contribution_missing_counterexample:
  "map_sum id tempBlockSig (computeBlockSignature envNoMarshal (chainLeafAnnounced False)) =
     Inr emptySig
   \<and> map_sum id tempSignatureResponse
       (computeSignatureResponse envNoHeader
          (goVerifySignatureRequest envNoHeader chainLeaf ownSigs3)) = Inr emptySig
   \<and> map_sum id tempSignatureResponse
       (computeSignatureResponse envSignError
          (goVerifySignatureRequest envSignError chainLeaf ownSigs3)) = Inr emptySig
   \<and> map_sum id tempSignatureResponse
       (computeSignatureResponse envHonest
          (goVerifySignatureRequest envHonest chainLeafNoBlock ownSigs3)) = Inl NilPointer"
  by code_simp

text \<open>
  C8, amended. With a verification result received, every path of the two steps is one
  of the following. Phase 1: if the block marshals, exactly one item is appended, a
  signature when the block was valid and an exception with the node's own identifier
  when it was not; if the block does not marshal, nothing is appended, whatever the
  result. Phase 2: on rejection an exception with the node's own identifier is always
  appended; on acceptance the signature is appended if the header marshals and signing
  gives no error, nothing is appended if the header does not marshal or signing gives
  an error, and the step stops with a nil dereference if no block is set. Either
  addition makes the bundle one larger.
\<close>

theorem contribution_paths:
  "(recv (verifyBlockChan nt) = Some (ok, ch) \<and> marshalBlock env (block nt) = Some m \<longrightarrow>
      computeBlockSignature env nt =
        Inr (nt\<lparr>verifyBlockChan := ch,
                tempBlockSig :=
                  (if ok then addSig (fst (SignSchnorr env (Private nt) m)) (tempBlockSig nt)
                   else addException (nodeID nt) (tempBlockSig nt))\<rparr>))
   \<and> (recv (verifyBlockChan nt) = Some (ok, ch) \<and> marshalBlock env (block nt) = None \<longrightarrow>
      computeBlockSignature env nt = Inr (nt\<lparr>verifyBlockChan := ch\<rparr>))
   \<and> (recv (verifySignatureRequestChan nt) = Some (False, ch) \<longrightarrow>
      computeSignatureResponse env nt =
        Inr (nt\<lparr>verifySignatureRequestChan := ch,
                tempSignatureResponse := addException (nodeID nt) (tempSignatureResponse nt)\<rparr>))
   \<and> (recv (verifySignatureRequestChan nt) = Some (True, ch) \<and> block nt = Some b
        \<and> marshalHeader env b = Some h \<and> SignSchnorr env (Private nt) h = (sig, False) \<longrightarrow>
      computeSignatureResponse env nt =
        Inr (nt\<lparr>verifySignatureRequestChan := ch,
                tempSignatureResponse := addSig sig (tempSignatureResponse nt)\<rparr>))
   \<and> (recv (verifySignatureRequestChan nt) = Some (True, ch) \<and> block nt = Some b
        \<and> marshalHeader env b = None \<longrightarrow>
      computeSignatureResponse env nt = Inr (nt\<lparr>verifySignatureRequestChan := ch\<rparr>))
   \<and> (recv (verifySignatureRequestChan nt) = Some (True, ch) \<and> block nt = Some b
        \<and> marshalHeader env b = Some h \<and> SignSchnorr env (Private nt) h = (sig, True) \<longrightarrow>
      computeSignatureResponse env nt = Inr (nt\<lparr>verifySignatureRequestChan := ch\<rparr>))
   \<and> (recv (verifySignatureRequestChan nt) = Some (True, ch) \<and> block nt = None \<longrightarrow>
      computeSignatureResponse env nt = Inl NilPointer)
   \<and> bundleSize (addSig sig bdl) = bundleSize bdl + 1
   \<and> bundleSize (addException i bdl) = bundleSize bdl + 1"
  by (simp add: computeBlockSignature_def computeSignatureResponse_def bundleSize_def
      addSig_def addException_def)

text \<open>
  The amended C8 at the leaf of the chain, one instance for each path: phase 1 after a
  failed block verification, with and without a block that marshals; phase 2 after a
  rejected request; phase 2 after an accepted request, with the header signed, with a
  header that does not marshal, with a signing error, and with no block set.
\<close>

theorem contribution_paths_witness:
  "(recv (verifyBlockChan (chainLeafAnnounced False)) = Some (False, [])
    \<and> marshalBlock envHonest (block (chainLeafAnnounced False)) = Some ''block''
    \<and> map_sum id tempBlockSig (computeBlockSignature envHonest (chainLeafAnnounced False)) =
        Inr (refusal 2))
   \<and> (marshalBlock envNoMarshal (block (chainLeafAnnounced False)) = None
    \<and> map_sum id tempBlockSig (computeBlockSignature envNoMarshal (chainLeafAnnounced False)) =
        Inr emptySig)
   \<and> (recv (verifySignatureRequestChan chainLeafRequested) = Some (False, [[False, True]])
    \<and> map_sum id tempSignatureResponse (computeSignatureResponse envHonest chainLeafRequested) =
        Inr (refusal 2))
   \<and> (recv (verifySignatureRequestChan (goVerifySignatureRequest envHonest chainLeaf ownSigs3)) =
        Some (True, [])
    \<and> block (goVerifySignatureRequest envHonest chainLeaf ownSigs3) = Some 42
    \<and> marshalHeader envHonest 42 = Some ''header''
    \<and> SignSchnorr envHonest (Private (goVerifySignatureRequest envHonest chainLeaf ownSigs3))
         ''header'' = (''header###'', False)
    \<and> map_sum id tempSignatureResponse
        (computeSignatureResponse envHonest
           (goVerifySignatureRequest envHonest chainLeaf ownSigs3)) =
        Inr \<lparr>Sigs = [''header###''], Exceptions = []\<rparr>)
   \<and> (recv (verifySignatureRequestChan (goVerifySignatureRequest envNoHeader chainLeaf ownSigs3)) =
        Some (True, [])
    \<and> block (goVerifySignatureRequest envNoHeader chainLeaf ownSigs3) = Some 42
    \<and> marshalHeader envNoHeader 42 = None
    \<and> map_sum id tempSignatureResponse
        (computeSignatureResponse envNoHeader
           (goVerifySignatureRequest envNoHeader chainLeaf ownSigs3)) = Inr emptySig)
   \<and> (recv (verifySignatureRequestChan (goVerifySignatureRequest envSignError chainLeaf ownSigs3)) =
        Some (True, [])
    \<and> block (goVerifySignatureRequest envSignError chainLeaf ownSigs3) = Some 42
    \<and> marshalHeader envSignError 42 = Some ''header''
    \<and> SignSchnorr envSignError (Private (goVerifySignatureRequest envSignError chainLeaf ownSigs3))
         ''header'' = (''header###'', True)
    \<and> map_sum id tempSignatureResponse
        (computeSignatureResponse envSignError
           (goVerifySignatureRequest envSignError chainLeaf ownSigs3)) = Inr emptySig)
   \<and> (recv (verifySignatureRequestChan (goVerifySignatureRequest envHonest chainLeafNoBlock ownSigs3)) =
        Some (True, [])
    \<and> block (goVerifySignatureRequest envHonest chainLeafNoBlock ownSigs3) = None
    \<and> computeSignatureResponse envHonest
         (goVerifySignatureRequest envHonest chainLeafNoBlock ownSigs3) = Inl NilPointer)"
proof -
  let ?A = "chainLeafAnnounced False"
  have a1: "recv (verifyBlockChan ?A) = Some (False, [])" by code_simp
  have a2: "marshalBlock envHonest (block ?A) = Some ''block''" by code_simp
  have a3: "marshalBlock envNoMarshal (block ?A) = None" by code_simp
  have tA: "tempBlockSig ?A = emptySig" "nodeID ?A = 2"
    by (simp_all add: chainLeafAnnounced_def chainLeaf_def NewNtreeProtocol_def)
  from contribution_paths [where nt = ?A and ok = False and ch = "[]" and env = envHonest
      and m = "''block''"] a1 a2
  have "computeBlockSignature envHonest ?A =
      Inr (?A\<lparr>verifyBlockChan := [],
            tempBlockSig := addException (nodeID ?A) (tempBlockSig ?A)\<rparr>)"
    by simp
  then have p1: "map_sum id tempBlockSig (computeBlockSignature envHonest ?A) = Inr (refusal 2)"
    by (simp add: tA addException_def refusal_def emptySig_def)
  from contribution_paths [where nt = ?A and ok = False and ch = "[]" and env = envNoMarshal]
    a1 a3
  have "computeBlockSignature envNoMarshal ?A = Inr (?A\<lparr>verifyBlockChan := []\<rparr>)"
    by simp
  then have p2: "map_sum id tempBlockSig (computeBlockSignature envNoMarshal ?A) = Inr emptySig"
    by (simp add: tA)
  let ?R = chainLeafRequested
  have b1: "recv (verifySignatureRequestChan ?R) = Some (False, [[False, True]])" by code_simp
  have tR: "tempSignatureResponse ?R = emptySig" "nodeID ?R = 2"
    by (simp_all add: chainLeafRequested_def goVerifySignatureRequest_def chainLeaf_def
        NewNtreeProtocol_def)
  from contribution_paths [where nt = ?R and ch = "[[False, True]]" and env = envHonest] b1
  have "computeSignatureResponse envHonest ?R =
      Inr (?R\<lparr>verifySignatureRequestChan := [[False, True]],
            tempSignatureResponse := addException (nodeID ?R) (tempSignatureResponse ?R)\<rparr>)"
    by simp
  then have p3: "map_sum id tempSignatureResponse (computeSignatureResponse envHonest ?R) =
      Inr (refusal 2)"
    by (simp add: tR addException_def refusal_def emptySig_def)
  let ?H = "goVerifySignatureRequest envHonest chainLeaf ownSigs3"
  have c1: "recv (verifySignatureRequestChan ?H) = Some (True, [])" by code_simp
  have c2: "block ?H = Some 42" by code_simp
  have c3: "marshalHeader envHonest 42 = Some ''header''" by code_simp
  have c4: "SignSchnorr envHonest (Private ?H) ''header'' = (''header###'', False)" by code_simp
  have tH: "tempSignatureResponse ?H = emptySig"
    by (simp add: goVerifySignatureRequest_def chainLeaf_def NewNtreeProtocol_def)
  from contribution_paths [where nt = ?H and ch = "[]" and env = envHonest and b = 42
      and h = "''header''" and sig = "''header###''"] c1 c2 c3 c4
  have "computeSignatureResponse envHonest ?H =
      Inr (?H\<lparr>verifySignatureRequestChan := [],
            tempSignatureResponse := addSig ''header###'' (tempSignatureResponse ?H)\<rparr>)"
    by simp
  then have p4: "map_sum id tempSignatureResponse (computeSignatureResponse envHonest ?H) =
      Inr \<lparr>Sigs = [''header###''], Exceptions = []\<rparr>"
    by (simp add: tH addSig_def emptySig_def)
  let ?N = "goVerifySignatureRequest envNoHeader chainLeaf ownSigs3"
  have d1: "recv (verifySignatureRequestChan ?N) = Some (True, [])" by code_simp
  have d2: "block ?N = Some 42" by code_simp
  have d3: "marshalHeader envNoHeader 42 = None" by code_simp
  have tN: "tempSignatureResponse ?N = emptySig"
    by (simp add: goVerifySignatureRequest_def chainLeaf_def NewNtreeProtocol_def)
  from contribution_paths [where nt = ?N and ch = "[]" and env = envNoHeader and b = 42]
    d1 d2 d3
  have "computeSignatureResponse envNoHeader ?N = Inr (?N\<lparr>verifySignatureRequestChan := []\<rparr>)"
    by simp
  then have p5: "map_sum id tempSignatureResponse (computeSignatureResponse envNoHeader ?N) =
      Inr emptySig"
    by (simp add: tN)
  let ?E = "goVerifySignatureRequest envSignError chainLeaf ownSigs3"
  have e1: "recv (verifySignatureRequestChan ?E) = Some (True, [])" by code_simp
  have e2: "block ?E = Some 42" by code_simp
  have e3: "marshalHeader envSignError 42 = Some ''header''" by code_simp
  have e4: "SignSchnorr envSignError (Private ?E) ''header'' = (''header###'', True)" by code_simp
  have tE: "tempSignatureResponse ?E = emptySig"
    by (simp add: goVerifySignatureRequest_def chainLeaf_def NewNtreeProtocol_def)
  from contribution_paths [where nt = ?E and ch = "[]" and env = envSignError and b = 42
      and h = "''header''" and sig = "''header###''"] e1 e2 e3 e4
  have "computeSignatureResponse envSignError ?E = Inr (?E\<lparr>verifySignatureRequestChan := []\<rparr>)"
    by simp
  then have p6: "map_sum id tempSignatureResponse (computeSignatureResponse envSignError ?E) =
      Inr emptySig"
    by (simp add: tE)
  let ?Z = "goVerifySignatureRequest envHonest chainLeafNoBlock ownSigs3"
  have f1: "recv (verifySignatureRequestChan ?Z) = Some (True, [])" by code_simp
  have f2: "block ?Z = None" by code_simp
  from contribution_paths [where nt = ?Z and ch = "[]" and env = envHonest] f1 f2
  have p7: "computeSignatureResponse envHonest ?Z = Inl NilPointer"
    by simp
  from a1 a2 a3 p1 p2 b1 p3 c1 c2 c3 c4 p4 d1 d2 d3 p5 e1 e2 e3 e4 p6 f1 f2 p7
  show ?thesis by blast
qed

subsection \<open>Merging bundles\<close>

text \<open>
  C9. Merging is associative, and commutative in content: swapping two bundles, or
  merging a node's children's bundles in any other order, gives the same multiset of
  signatures and the same multiset of exceptions.
\<close>

theorem merge_order_irrelevant:
  "merge (merge a b) c = merge a (merge b c)
   \<and> mset (Sigs (merge a b)) = mset (Sigs (merge b a))
   \<and> mset (Exceptions (merge a b)) = mset (Exceptions (merge b a))
   \<and> (mset bs = mset bs' \<longrightarrow>
        mset (Sigs (foldl merge a bs)) = mset (Sigs (foldl merge a bs'))
        \<and> mset (Exceptions (foldl merge a bs)) = mset (Exceptions (foldl merge a bs')))"
  by (simp add: Sigs_foldl_merge Exceptions_foldl_merge) (simp add: merge_def)

text \<open>C9 at three bundles arriving in two different orders.\<close>

theorem merge_order_irrelevant_witness:
  "mset [bundle1, bundle2, refusal 3] = mset [refusal 3, bundle1, bundle2]
   \<and> mset (Sigs (foldl merge emptySig [bundle1, bundle2, refusal 3])) =
       mset (Sigs (foldl merge emptySig [refusal 3, bundle1, bundle2]))
   \<and> mset (Exceptions (foldl merge emptySig [bundle1, bundle2, refusal 3])) =
       mset (Exceptions (foldl merge emptySig [refusal 3, bundle1, bundle2]))"
proof -
  have h: "mset [bundle1, bundle2, refusal 3] = mset [refusal 3, bundle1, bundle2]"
    by (simp add: ac_simps)
  from merge_order_irrelevant [where a = emptySig and bs = "[bundle1, bundle2, refusal 3]"
      and bs' = "[refusal 3, bundle1, bundle2]"] h
  show ?thesis by blast
qed

subsection \<open>The key used in bundle verification\<close>

text \<open>
  C10. The count of good signatures is the number of signatures of the request that
  verify under the verifying node's own public key. A signature that is valid under
  another participant's key and not under the node's own adds nothing to the count.
\<close>

theorem goodSig_own_key:
  "goodSig env nt msg =
     length (filter (VerifySchnorr env (Public nt) (marshalledBlock env nt)) (Sigs msg))
   \<and> (VerifySchnorr env pk (marshalledBlock env nt) s
        \<and> \<not> VerifySchnorr env (Public nt) (marshalledBlock env nt) s \<longrightarrow>
      goodSig env nt (msg\<lparr>Sigs := xs @ s # ys\<rparr>) = goodSig env nt (msg\<lparr>Sigs := xs @ ys\<rparr>))"
  by (simp add: goodSig_def countGood_filter)

text \<open>
  C10 at the leaf of the chain, whose key is 3: the signature made with key 7 is valid
  under key 7 and is not counted, the leaf's own is.
\<close>

theorem goodSig_own_key_witness:
  "VerifySchnorr envHonest 7 (marshalledBlock envHonest chainLeaf) (toySign 7 ''block'')
   \<and> \<not> VerifySchnorr envHonest (Public chainLeaf) (marshalledBlock envHonest chainLeaf)
          (toySign 7 ''block'')
   \<and> goodSig envHonest chainLeaf (emptySig\<lparr>Sigs := [toySign 3 ''block''] @ toySign 7 ''block'' # []\<rparr>)
       = goodSig envHonest chainLeaf (emptySig\<lparr>Sigs := [toySign 3 ''block''] @ []\<rparr>)
   \<and> goodSig envHonest chainLeaf (emptySig\<lparr>Sigs := [toySign 3 ''block''] @ []\<rparr>) = 1"
proof -
  have h1: "VerifySchnorr envHonest 7 (marshalledBlock envHonest chainLeaf) (toySign 7 ''block'')"
    by code_simp
  have h2: "\<not> VerifySchnorr envHonest (Public chainLeaf) (marshalledBlock envHonest chainLeaf)
          (toySign 7 ''block'')"
    by code_simp
  have h3: "goodSig envHonest chainLeaf (emptySig\<lparr>Sigs := [toySign 3 ''block''] @ []\<rparr>) = 1"
    by code_simp
  from goodSig_own_key [of envHonest chainLeaf emptySig 7 "toySign 7 ''block''"
       "[toySign 3 ''block'']" "[]"] h1 h2 h3
  show ?thesis by blast
qed

end
